theory Spec2Isabelle
  imports Complex_Main "HOL-Library.AList"
begin

section \<open>Numbers\<close>

text \<open>
  The entries of a design matrix are 64-bit floats in the program. Here a number is a
  real, \<open>Fin x\<close>, or \<open>NaN\<close>, a missing entry. The arithmetic on \<open>Fin\<close> is exact: rounding,
  overflow, underflow and the two infinities of IEEE arithmetic are not modelled (a
  non-zero number divided by zero gives \<open>NaN\<close> here, an infinity there). So a value
  computed here is the program's value up to rounding at best, and no theorem of this
  theory that speaks of every design matrix rests on the numbers computed; numbers
  appear only in the runs on the small example frames below. What the theorems do use
  is shared with IEEE arithmetic: an operation with a \<open>NaN\<close> operand gives \<open>NaN\<close> (also
  \<open>0 * NaN\<close>), \<open>0 / 0\<close> is \<open>NaN\<close>, and no operation raises.
\<close>

datatype fval = Fin real | NaN

fun fadd :: "fval \<Rightarrow> fval \<Rightarrow> fval" where
  "fadd (Fin a) (Fin b) = Fin (a + b)"
| "fadd _ _ = NaN"

fun fsub :: "fval \<Rightarrow> fval \<Rightarrow> fval" where
  "fsub (Fin a) (Fin b) = Fin (a - b)"
| "fsub _ _ = NaN"

fun fmul :: "fval \<Rightarrow> fval \<Rightarrow> fval" where
  "fmul (Fin a) (Fin b) = Fin (a * b)"
| "fmul _ _ = NaN"

fun fdiv :: "fval \<Rightarrow> fval \<Rightarrow> fval" where
  "fdiv (Fin a) (Fin b) = (if b = 0 then NaN else Fin (a / b))"
| "fdiv _ _ = NaN"

text \<open>
  \<open>x ** 0.5\<close> on a Python number. For a negative \<open>x\<close> Python 3 returns a complex number;
  the model gives \<open>NaN\<close> (the only negative argument the program can form is \<open>-1\<close>, for a
  frame of no rows, and then no column is left to be divided: lemma
  \<open>drop_constant_no_rows\<close>).
\<close>

fun pow_half :: "fval \<Rightarrow> fval" where
  "pow_half (Fin a) = (if a < 0 then NaN else Fin (sqrt a))"
| "pow_half NaN = NaN"

fun fsum :: "fval list \<Rightarrow> fval" where
  "fsum [] = Fin 0"
| "fsum (x # xs) = fadd x (fsum xs)"

section \<open>Columns and frames (pandas)\<close>

text \<open>The entries of a column that are not missing, in order.\<close>

fun notna :: "fval list \<Rightarrow> real list" where
  "notna [] = []"
| "notna (Fin x # c) = x # notna c"
| "notna (NaN # c) = notna c"

text \<open>\<open>Series.nunique()\<close>: the number of distinct values, missing entries not counted.\<close>

definition nunique :: "fval list \<Rightarrow> nat" where
  "nunique c = length (remdups (notna c))"

text \<open>\<open>Series.isnull().any()\<close>.\<close>

definition isnull_any :: "fval list \<Rightarrow> bool" where
  "isnull_any c = (NaN \<in> set c)"

text \<open>\<open>Series.mean()\<close>: missing entries are skipped; no entry left gives \<open>NaN\<close>.\<close>

definition mean :: "fval list \<Rightarrow> fval" where
  "mean c = (let xs = notna c in
     if xs = [] then NaN else Fin (sum_list xs / real (length xs)))"

text \<open>
  \<open>Series.std()\<close>: the sample standard deviation (denominator \<open>count - 1\<close>) of the entries
  that are not missing; fewer than two such entries give \<open>NaN\<close>.
\<close>

definition var :: "fval list \<Rightarrow> fval" where
  "var c = (let xs = notna c; m = sum_list xs / real (length xs) in
     if length xs \<le> 1 then NaN
     else Fin (sum_list (map (\<lambda>x. (x - m)\<^sup>2) xs) / real (length xs - 1)))"

definition std :: "fval list \<Rightarrow> fval" where
  "std c = pow_half (var c)"

text \<open>
  A data frame: its number of rows (\<open>shape[0]\<close>) and its named columns, in order. In a
  well-formed frame every column has one entry per row. The program selects columns by
  a mask and computes column by column; the names only go to the builder.
\<close>

record dataframe =
  nrows :: nat
  cols :: "(string \<times> fval list) list"

definition wf_frame :: "dataframe \<Rightarrow> bool" where
  "wf_frame d = list_all (\<lambda>(n, c). length c = nrows d) (cols d)"

definition columns :: "dataframe \<Rightarrow> string list" where
  "columns d = map fst (cols d)"

text \<open>Lines 19-21: the columns with more than one distinct value or a missing entry.\<close>

definition retained :: "fval list \<Rightarrow> bool" where
  "retained c = (1 < nunique c \<or> isnull_any c)"

definition drop_constant :: "dataframe \<Rightarrow> dataframe" where
  "drop_constant d = d\<lparr>cols := filter (\<lambda>(n, c). retained c) (cols d)\<rparr>"

text \<open>Lines 23-26: centre each column and divide it by \<open>(nsamp - 1) ** 0.5 * std\<close>.\<close>

definition scale_column :: "int \<Rightarrow> fval list \<Rightarrow> fval list" where
  "scale_column nsamp c =
     map (\<lambda>x. fdiv (fsub x (mean c)) (fmul (pow_half (Fin (of_int (nsamp - 1)))) (std c))) c"

definition standardize :: "dataframe \<Rightarrow> dataframe" where
  "standardize d = (let nsamp = int (nrows d) in
     d\<lparr>cols := map (\<lambda>(n, c). (n, scale_column nsamp c)) (cols d)\<rparr>)"

definition preprocess :: "dataframe \<Rightarrow> dataframe" where
  "preprocess d = standardize (drop_constant d)"

section \<open>Matrices (numpy)\<close>

text \<open>A matrix is the list of its rows. The inner product of two vectors:\<close>

definition dot :: "fval list \<Rightarrow> fval list \<Rightarrow> fval" where
  "dot a b = fsum (map2 fmul a b)"

text \<open>\<open>X.transpose() @ X\<close>: entry \<open>(i, j)\<close> is the inner product of columns \<open>i\<close> and \<open>j\<close>.\<close>

definition gram :: "dataframe \<Rightarrow> fval list list" where
  "gram d = map (\<lambda>(n, ci). map (\<lambda>(m, cj). dot ci cj) (cols d)) (cols d)"

definition identity :: "nat \<Rightarrow> fval list list" where
  "identity p = map (\<lambda>i. map (\<lambda>j. if i = j then Fin 1 else Fin 0) [0..<p]) [0..<p]"

text \<open>\<open>np.multiply\<close>: the entrywise product.\<close>

definition multiply :: "fval list list \<Rightarrow> fval list list \<Rightarrow> fval list list" where
  "multiply A B = map2 (map2 fmul) A B"

text \<open>Lines 41-44: the cross-product matrix with the identity multiplied in.\<close>

definition gram_diag :: "dataframe \<Rightarrow> fval list list" where
  "gram_diag d = multiply (gram d) (identity (length (cols d)))"

datatype error = LinAlgError | ValueError | ExpressionError

text \<open>
  \<open>c @ M @ c.transpose()\<close> for a vector \<open>c\<close>: numpy raises \<open>ValueError\<close> unless the shapes
  agree, that is unless \<open>M\<close> has as many rows and columns as \<open>c\<close> has entries.
\<close>

definition quad :: "fval list \<Rightarrow> fval list list \<Rightarrow> error + fval" where
  "quad c M =
     (if length M = length c \<and> list_all (\<lambda>r. length r = length c) M
      then Inr (dot (map (\<lambda>j. dot c (map (\<lambda>r. r ! j) M)) [0..<length c]) c)
      else Inl ValueError)"

section \<open>The external collaborators\<close>

text \<open>
  \<open>expression_to_contrast_vector\<close> (nilearn) and \<open>np.linalg.inv\<close> are library functions
  outside the repository. The program is modelled for any two functions of their
  types: a builder takes the expression and the column names, an inverter takes a
  matrix; each returns a value or raises.
\<close>

type_synonym builder = "string \<Rightarrow> string list \<Rightarrow> error + fval list"
type_synonym inverter = "fval list list \<Rightarrow> error + fval list list"

section \<open>The program\<close>

text \<open>Lines 29-48, the body of the loop: the VIF of one contrast.\<close>

definition contrast_vif :: "builder \<Rightarrow> inverter \<Rightarrow> dataframe \<Rightarrow> string \<Rightarrow> error + fval" where
  "contrast_vif build invert X contrast_string =
     (case build contrast_string (columns X) of
        Inl e \<Rightarrow> Inl e
      | Inr contrast_cvec \<Rightarrow>
         (case invert (gram X) of
            Inl e \<Rightarrow> Inl e
          | Inr gi \<Rightarrow>
             (case quad contrast_cvec gi of
                Inl e \<Rightarrow> Inl e
              | Inr true_var_contrast \<Rightarrow>
                 (case invert (gram_diag X) of
                    Inl e \<Rightarrow> Inl e
                  | Inr di \<Rightarrow>
                     (case quad contrast_cvec di of
                        Inl e \<Rightarrow> Inl e
                      | Inr best_var_contrast \<Rightarrow>
                          Inr (fdiv true_var_contrast best_var_contrast))))))"

text \<open>
  Lines 27-49, the loop over \<open>contrasts.items()\<close>. The dictionary being filled is an
  association list in insertion order; \<open>AList.update\<close> is Python's item assignment (a new
  key goes to the end, a known key keeps its place). An exception leaves the loop and the
  function, and the dictionary is lost with it.
\<close>

fun vif_loop :: "builder \<Rightarrow> inverter \<Rightarrow> dataframe \<Rightarrow> (string \<times> fval) list \<Rightarrow>
    (string \<times> string) list \<Rightarrow> error + (string \<times> fval) list" where
  "vif_loop build invert X vifs_contrasts [] = Inr vifs_contrasts"
| "vif_loop build invert X vifs_contrasts ((contrast_name, contrast_string) # rest) =
     (case contrast_vif build invert X contrast_string of
        Inl e \<Rightarrow> Inl e
      | Inr v \<Rightarrow> vif_loop build invert X (AList.update contrast_name v vifs_contrasts) rest)"

definition est_contrast_vifs :: "builder \<Rightarrow> inverter \<Rightarrow> dataframe \<Rightarrow>
    (string \<times> string) list \<Rightarrow> error + (string \<times> fval) list" where
  "est_contrast_vifs build invert desmat contrasts =
     vif_loop build invert (preprocess desmat) [] contrasts"

section \<open>Exact matrix inversion\<close>

text \<open>
  \<open>np.linalg.inv\<close> in exact arithmetic: \<open>LinAlgError\<close> for a matrix that is not square or
  whose determinant is zero, the inverse (cofactors over the determinant) otherwise; the
  empty matrix is its own inverse. The arithmetic propagates \<open>NaN\<close>: the one-entry matrix
  holding \<open>NaN\<close> has the determinant \<open>NaN\<close>, which is not zero, so no error is raised and
  the result is that matrix again (lemma \<open>linalg_inv_nan\<close>).
\<close>

definition del_at :: "nat \<Rightarrow> 'a list \<Rightarrow> 'a list" where
  "del_at i xs = take i xs @ drop (Suc i) xs"

definition sign :: "nat \<Rightarrow> fval" where
  "sign k = (if even k then Fin 1 else Fin (- 1))"

function det :: "fval list list \<Rightarrow> fval" where
  "det [] = Fin 1"
| "det (r # M) =
     fsum (map (\<lambda>j. fmul (fmul (sign j) (r ! j)) (det (map (del_at j) M))) [0..<length r])"
  by pat_completeness auto
termination
  by (relation "measure length") auto

definition cofactor :: "fval list list \<Rightarrow> nat \<Rightarrow> nat \<Rightarrow> fval" where
  "cofactor M i j = fmul (sign (i + j)) (det (map (del_at j) (del_at i M)))"

definition linalg_inv :: inverter where
  "linalg_inv M =
     (if \<not> list_all (\<lambda>r. length r = length M) M then Inl LinAlgError
      else if det M = Fin 0 then Inl LinAlgError
      else Inr (map (\<lambda>i. map (\<lambda>j. fdiv (cofactor M j i) (det M)) [0..<length M])
                  [0..<length M]))"

text \<open>
  A small builder for concrete runs: an expression that is a column name gives the
  indicator vector of that column's first occurrence (the first branch of nilearn's
  function), \<open>A - B\<close> gives the difference of the indicators of the columns \<open>A\<close> and
  \<open>B\<close>, anything else is rejected.
\<close>

fun one_hot :: "string \<Rightarrow> string list \<Rightarrow> fval list" where
  "one_hot e [] = []"
| "one_hot e (n # ns) =
     (if n = e then Fin 1 # map (\<lambda>_. Fin 0) ns else Fin 0 # one_hot e ns)"

definition demo_builder :: builder where
  "demo_builder expr names =
     (if expr \<in> set names then Inr (one_hot expr names)
      else if expr = ''A - B'' \<and> ''A'' \<in> set names \<and> ''B'' \<in> set names
      then Inr (map (\<lambda>n. if n = ''A'' then Fin 1 else if n = ''B'' then Fin (- 1) else Fin 0) names)
      else Inl ValueError)"

section \<open>What a successful run relates\<close>

text \<open>
  An input pair (name, expression) and an output pair (name, VIF) belong together when
  the names agree and the loop body, run on the expression, returns the VIF.
\<close>

definition ok_pair :: "builder \<Rightarrow> inverter \<Rightarrow> dataframe \<Rightarrow> string \<times> string \<Rightarrow> string \<times> fval \<Rightarrow> bool" where
  "ok_pair build invert X ne nv =
     (fst nv = fst ne \<and> contrast_vif build invert X (snd ne) = Inr (snd nv))"

text \<open>
  \<open>DataFrame.insert\<close>: the frame with one more column, put before position \<open>i\<close> (at the
  end when \<open>i\<close> is beyond the last column).
\<close>

definition insert_column :: "nat \<Rightarrow> string \<Rightarrow> fval list \<Rightarrow> dataframe \<Rightarrow> dataframe" where
  "insert_column i name c d = d\<lparr>cols := take i (cols d) @ (name, c) # drop i (cols d)\<rparr>"

section \<open>The algorithm as the specification words it\<close>

text \<open>
  Section 4.3 of the specification asks for another arrangement of the same computation:
  step 1 computes the cross-product matrix and its inverse, step 2 the diagonal matrix
  and its inverse, both once and before the loop; step 3 then runs over the contrasts
  and uses the two inverses; step 4 returns the mapping. The following three definitions
  follow those words, not the source, to be compared with \<open>est_contrast_vifs\<close>; the
  two matrices are the ones the source inverts.
\<close>

definition contrast_vif_once :: "builder \<Rightarrow> fval list list \<Rightarrow> fval list list \<Rightarrow> string list \<Rightarrow>
    string \<Rightarrow> error + fval" where
  "contrast_vif_once build gi di names expression =
     (case build expression names of
        Inl e \<Rightarrow> Inl e
      | Inr c \<Rightarrow>
         (case quad c gi of
            Inl e \<Rightarrow> Inl e
          | Inr true_var \<Rightarrow>
             (case quad c di of
                Inl e \<Rightarrow> Inl e
              | Inr best_var \<Rightarrow> Inr (fdiv true_var best_var))))"

fun vif_loop_once :: "builder \<Rightarrow> fval list list \<Rightarrow> fval list list \<Rightarrow> string list \<Rightarrow>
    (string \<times> fval) list \<Rightarrow> (string \<times> string) list \<Rightarrow> error + (string \<times> fval) list" where
  "vif_loop_once build gi di names result [] = Inr result"
| "vif_loop_once build gi di names result ((name, expression) # rest) =
     (case contrast_vif_once build gi di names expression of
        Inl e \<Rightarrow> Inl e
      | Inr v \<Rightarrow> vif_loop_once build gi di names (AList.update name v result) rest)"

definition est_contrast_vifs_once :: "builder \<Rightarrow> inverter \<Rightarrow> dataframe \<Rightarrow>
    (string \<times> string) list \<Rightarrow> error + (string \<times> fval) list" where
  "est_contrast_vifs_once build invert desmat contrasts =
     (let X = preprocess desmat in
      case invert (gram X) of
        Inl e \<Rightarrow> Inl e
      | Inr gi \<Rightarrow>
         (case invert (gram_diag X) of
            Inl e \<Rightarrow> Inl e
          | Inr di \<Rightarrow> vif_loop_once build gi di (columns X) [] contrasts))"

section \<open>Example frames\<close>

text \<open>
  Two regressors of correlation 3/4 with a constant column between them; five rows, so
  that \<open>(nsamp - 1) ** 0.5\<close> is 2, and columns of sample variance 1.
\<close>

definition d_ab :: dataframe where
  "d_ab = \<lparr>nrows = 5, cols =
     [(''A'', [Fin 1, Fin 1, Fin (- 1), Fin (- 1), Fin 0]),
      (''K'', [Fin 7, Fin 7, Fin 7, Fin 7, Fin 7]),
      (''B'', [Fin 1, Fin 1, Fin (- 1), Fin 0, Fin (- 1)])]\<rparr>"

text \<open>The same regressor twice: correlation 1.\<close>

definition d_same :: dataframe where
  "d_same = \<lparr>nrows = 5, cols =
     [(''A'', [Fin 1, Fin 1, Fin (- 1), Fin (- 1), Fin 0]),
      (''B'', [Fin 1, Fin 1, Fin (- 1), Fin (- 1), Fin 0])]\<rparr>"

text \<open>One constant column.\<close>

definition d_const :: dataframe where
  "d_const = \<lparr>nrows = 2, cols = [(''K'', [Fin 5, Fin 5])]\<rparr>"

text \<open>A constant column with a missing entry.\<close>

definition d_zero_var :: dataframe where
  "d_zero_var = \<lparr>nrows = 3, cols = [(''A'', [Fin 1, Fin 1, NaN])]\<rparr>"

text \<open>A column of sample variance 1 with a missing entry.\<close>

definition d_missing :: dataframe where
  "d_missing = \<lparr>nrows = 5, cols = [(''A'', [Fin 2, Fin 0, Fin 0, Fin 0, NaN])]\<rparr>"

section \<open>Evaluation\<close>

lemmas frame_defs = preprocess_def standardize_def drop_constant_def retained_def
  nunique_def isnull_any_def scale_column_def mean_def std_def var_def power2_eq_square

lemmas matrix_defs = gram_def gram_diag_def multiply_def identity_def dot_def quad_def
  columns_def

lemmas inverse_defs = linalg_inv_def cofactor_def del_at_def sign_def

lemma preprocess_d_ab:
  "preprocess d_ab = \<lparr>nrows = 5, cols =
     [(''A'', [Fin (1/2), Fin (1/2), Fin (- 1/2), Fin (- 1/2), Fin 0]),
      (''B'', [Fin (1/2), Fin (1/2), Fin (- 1/2), Fin 0, Fin (- 1/2)])]\<rparr>"
  by (simp add: d_ab_def frame_defs)

lemma gram_d_ab: "gram (preprocess d_ab) = [[Fin 1, Fin (3/4)], [Fin (3/4), Fin 1]]"
  by (simp add: preprocess_d_ab gram_def dot_def)

lemma gram_diag_d_ab: "gram_diag (preprocess d_ab) = [[Fin 1, Fin 0], [Fin 0, Fin 1]]"
  by (simp add: gram_diag_def gram_d_ab multiply_def identity_def) (simp add: preprocess_d_ab)

lemma columns_d_ab: "columns (preprocess d_ab) = [''A'', ''B'']"
  by (simp add: preprocess_d_ab columns_def)

lemma linalg_inv_d_ab:
  "linalg_inv [[Fin 1, Fin (3/4)], [Fin (3/4), Fin 1]] =
     Inr [[Fin (16/7), Fin (- 12/7)], [Fin (- 12/7), Fin (16/7)]]"
  by (simp add: inverse_defs)

lemma linalg_inv_identity2:
  "linalg_inv [[Fin 1, Fin 0], [Fin 0, Fin 1]] = Inr [[Fin 1, Fin 0], [Fin 0, Fin 1]]"
  by (simp add: inverse_defs)

lemma preprocess_d_same:
  "preprocess d_same = \<lparr>nrows = 5, cols =
     [(''A'', [Fin (1/2), Fin (1/2), Fin (- 1/2), Fin (- 1/2), Fin 0]),
      (''B'', [Fin (1/2), Fin (1/2), Fin (- 1/2), Fin (- 1/2), Fin 0])]\<rparr>"
  by (simp add: d_same_def frame_defs)

lemma gram_d_same: "gram (preprocess d_same) = [[Fin 1, Fin 1], [Fin 1, Fin 1]]"
  by (simp add: preprocess_d_same gram_def dot_def)

lemma linalg_inv_nan: "linalg_inv [[NaN]] = Inr [[NaN]]"
  by (simp add: inverse_defs)

lemma linalg_inv_empty: "linalg_inv [] = Inr []"
  by (simp add: inverse_defs)

lemma linalg_inv_ones: "linalg_inv [[Fin 1, Fin 1], [Fin 1, Fin 1]] = Inl LinAlgError"
  by (simp add: inverse_defs)

lemma contrast_vif_d_ab_unknown:
  "contrast_vif demo_builder linalg_inv (preprocess d_ab) ''K'' = Inl ValueError"
  by (simp add: contrast_vif_def columns_d_ab demo_builder_def)

lemma contrast_vif_d_ab_A:
  "contrast_vif demo_builder linalg_inv (preprocess d_ab) ''A'' = Inr (Fin (16/7))"
  by (simp add: contrast_vif_def columns_d_ab demo_builder_def gram_d_ab gram_diag_d_ab
      linalg_inv_d_ab linalg_inv_identity2 quad_def dot_def)

lemma contrast_vif_d_ab_B:
  "contrast_vif demo_builder linalg_inv (preprocess d_ab) ''B'' = Inr (Fin (16/7))"
  by (simp add: contrast_vif_def columns_d_ab demo_builder_def gram_d_ab gram_diag_d_ab
      linalg_inv_d_ab linalg_inv_identity2 quad_def dot_def)

section \<open>The retention rule\<close>

lemma set_notna: "set (notna c) = {x. Fin x \<in> set c}"
  by (induction c rule: notna.induct) auto

lemma nunique_gt_one: "1 < nunique c \<longleftrightarrow> (\<exists>x y. Fin x \<in> set c \<and> Fin y \<in> set c \<and> x \<noteq> y)"
proof -
  have "1 < card (set (notna c)) \<longleftrightarrow> (\<exists>x y. x \<in> set (notna c) \<and> y \<in> set (notna c) \<and> x \<noteq> y)"
    using card_le_Suc0_iff_eq [of "set (notna c)"] by (auto simp: not_le [symmetric])
  then show ?thesis
    by (simp add: nunique_def length_remdups_card_conv set_notna)
qed

lemma retained_iff:
  "retained c \<longleftrightarrow> (\<exists>x y. Fin x \<in> set c \<and> Fin y \<in> set c \<and> x \<noteq> y) \<or> NaN \<in> set c"
  unfolding retained_def isnull_any_def nunique_gt_one by simp

lemma not_retained_replicate: "\<not> retained (replicate k (Fin v))"
  by (auto simp: retained_iff)

lemma nrows_drop_constant: "nrows (drop_constant d) = nrows d"
  by (simp add: drop_constant_def)

lemma update_fresh: "k \<notin> fst ` set al \<Longrightarrow> AList.update k v al = al @ [(k, v)]"
  by (induction al) auto

section \<open>The loop\<close>

lemma ok_pair_simp [simp]:
  "ok_pair build invert X (n, e) nv = (fst nv = n \<and> contrast_vif build invert X e = Inr (snd nv))"
  by (simp add: ok_pair_def)

lemma vif_loop_Inr:
  "distinct (map fst cs) \<Longrightarrow> fst ` set acc \<inter> fst ` set cs = {} \<Longrightarrow>
   vif_loop build invert X acc cs = Inr m \<longleftrightarrow>
     (\<exists>m'. m = acc @ m' \<and> list_all2 (ok_pair build invert X) cs m')"
proof (induction cs arbitrary: acc)
  case Nil
  then show ?case by auto
next
  case (Cons ne cs)
  obtain n e where ne: "ne = (n, e)" by (cases ne)
  have fresh: "n \<notin> fst ` set acc" using Cons.prems(2) ne by auto
  show ?case
  proof (cases "contrast_vif build invert X e")
    case (Inl err)
    then show ?thesis by (auto simp: ne list_all2_Cons1)
  next
    case (Inr v)
    have d: "distinct (map fst cs)" using Cons.prems(1) by simp
    have disj: "fst ` set (acc @ [(n, v)]) \<inter> fst ` set cs = {}"
      using Cons.prems ne by auto
    have "vif_loop build invert X (acc @ [(n, v)]) cs = Inr m \<longleftrightarrow>
      (\<exists>m'. m = (acc @ [(n, v)]) @ m' \<and> list_all2 (ok_pair build invert X) cs m')"
      by (rule Cons.IH [OF d disj])
    then show ?thesis
      using Inr fresh by (auto simp: ne update_fresh list_all2_Cons1)
  qed
qed

lemma vif_loop_Inl:
  "vif_loop build invert X acc cs = Inl err \<Longrightarrow>
     \<exists>ne. ne \<in> set cs \<and> contrast_vif build invert X (snd ne) = Inl err"
proof (induction cs arbitrary: acc)
  case Nil
  then show ?case by simp
next
  case (Cons ne cs)
  obtain n e where ne: "ne = (n, e)" by (cases ne)
  show ?case
  proof (cases "contrast_vif build invert X e")
    case (Inl err')
    then show ?thesis using Cons.prems ne by auto
  next
    case (Inr v)
    then have "vif_loop build invert X (AList.update n v acc) cs = Inl err"
      using Cons.prems ne by simp
    from Cons.IH [OF this] show ?thesis by auto
  qed
qed

lemma list_all2_ok_pair_keys: "list_all2 (ok_pair build invert X) cs m \<Longrightarrow> map fst m = map fst cs"
  by (induction cs m rule: list_all2_induct) (auto simp: ok_pair_def)

lemma drop_constant_insert_column:
  "drop_constant (insert_column i name (replicate k (Fin v)) d) = drop_constant d"
proof -
  let ?P = "\<lambda>(n, c). retained c"
  have "filter ?P (take i (cols d) @ (name, replicate k (Fin v)) # drop i (cols d))
      = filter ?P (take i (cols d)) @ filter ?P (drop i (cols d))"
    by (simp add: not_retained_replicate)
  also have "\<dots> = filter ?P (take i (cols d) @ drop i (cols d))"
    by (simp only: filter_append)
  also have "\<dots> = filter ?P (cols d)"
    by (simp only: append_take_drop_id)
  finally show ?thesis
    by (simp add: drop_constant_def insert_column_def)
qed

lemma contrast_vif_once_eq:
  "invert (gram X) = Inr gi \<Longrightarrow> invert (gram_diag X) = Inr di \<Longrightarrow>
   contrast_vif_once build gi di (columns X) e = contrast_vif build invert X e"
  by (simp add: contrast_vif_once_def contrast_vif_def split: sum.splits)

lemma vif_loop_once_eq:
  "invert (gram X) = Inr gi \<Longrightarrow> invert (gram_diag X) = Inr di \<Longrightarrow>
   vif_loop_once build gi di (columns X) acc cs = vif_loop build invert X acc cs"
  by (induction cs arbitrary: acc) (auto simp: contrast_vif_once_eq split: sum.splits)

lemma contrast_vif_Inr_inverts:
  "contrast_vif build invert X e = Inr v \<Longrightarrow>
   (\<exists>gi di. invert (gram X) = Inr gi \<and> invert (gram_diag X) = Inr di)"
  by (auto simp: contrast_vif_def split: sum.splits)

lemma vif_loop_Inr_inverts:
  "cs \<noteq> [] \<Longrightarrow> vif_loop build invert X acc cs = Inr m \<Longrightarrow>
   (\<exists>gi di. invert (gram X) = Inr gi \<and> invert (gram_diag X) = Inr di)"
proof -
  assume "cs \<noteq> []" and r: "vif_loop build invert X acc cs = Inr m"
  then obtain n e rest where cs: "cs = (n, e) # rest" by (cases cs) auto
  from r cs obtain v where "contrast_vif build invert X e = Inr v"
    by (auto split: sum.splits)
  then show ?thesis by (rule contrast_vif_Inr_inverts)
qed

section \<open>Missing entries in the standardized matrix\<close>

lemma cols_preprocess:
  "cols (preprocess d) =
     map (\<lambda>(n, c). (n, scale_column (int (nrows d)) c)) (cols (drop_constant d))"
  by (simp add: preprocess_def standardize_def Let_def nrows_drop_constant)

lemma scale_column_nan: "NaN \<in> set c \<Longrightarrow> NaN \<in> set (scale_column k c)"
  unfolding scale_column_def set_map by (erule rev_image_eqI) simp

lemma dot_self_nan: "NaN \<in> set z \<Longrightarrow> dot z z = NaN"
proof -
  have "NaN \<in> set z \<Longrightarrow> fsum (map2 fmul z z) = NaN"
  proof (induction z)
    case Nil
    then show ?case by simp
  next
    case (Cons x z)
    show ?case
    proof (cases x)
      case (Fin a)
      with Cons have "fsum (map2 fmul z z) = NaN" by simp
      then show ?thesis by simp
    next
      case NaN
      then show ?thesis by simp
    qed
  qed
  then show "NaN \<in> set z \<Longrightarrow> dot z z = NaN" by (simp add: dot_def)
qed

lemma gram_diag_diagonal:
  assumes "i < length (cols X)"
  shows "gram_diag X ! i ! i = fmul (dot (snd (cols X ! i)) (snd (cols X ! i))) (Fin 1)"
  using assms by (simp add: gram_diag_def multiply_def gram_def identity_def case_prod_unfold)

lemma identity_diagonal: "i < p \<Longrightarrow> identity p ! i ! i = Fin 1"
  by (simp add: identity_def)

section \<open>No rows, no columns\<close>

lemma not_retained_Nil: "\<not> retained []"
  by (simp add: retained_iff)

lemma drop_constant_no_rows:
  assumes "wf_frame d" and "nrows d = 0"
  shows "cols (drop_constant d) = []"
proof -
  have "\<not> retained c" if "(n, c) \<in> set (cols d)" for n c
  proof -
    from that assms have "c = []" by (auto simp: wf_frame_def list_all_iff)
    then show ?thesis by (simp add: not_retained_Nil)
  qed
  then show ?thesis by (auto simp: drop_constant_def filter_empty_conv)
qed

lemma est_failure_source:
  assumes "est_contrast_vifs build invert desmat contrasts = Inl err"
  shows "\<exists>ne. ne \<in> set contrasts \<and>
           contrast_vif build invert (preprocess desmat) (snd ne) = Inl err"
  using assms unfolding est_contrast_vifs_def by (rule vif_loop_Inl)

section \<open>Claims about the retention rule and the loop\<close>

text \<open>
  Claim C3. The preprocessing stage retains a column if and only if the column has more
  than one distinct value or contains a missing value; every other column is dropped,
  and the retained columns keep their order and the frame its rows. The columns of the
  standardized matrix are the retained ones.
\<close>

theorem retention_rule:
  "cols (drop_constant d) =
     filter (\<lambda>(n, c). (\<exists>x y. Fin x \<in> set c \<and> Fin y \<in> set c \<and> x \<noteq> y) \<or> NaN \<in> set c) (cols d)
   \<and> nrows (drop_constant d) = nrows d
   \<and> columns (preprocess d) =
     map fst (filter (\<lambda>(n, c). (\<exists>x y. Fin x \<in> set c \<and> Fin y \<in> set c \<and> x \<noteq> y) \<or> NaN \<in> set c) (cols d))"
proof -
  have "(\<lambda>(n::string, c). retained c) =
        (\<lambda>(n, c). (\<exists>x y. Fin x \<in> set c \<and> Fin y \<in> set c \<and> x \<noteq> y) \<or> NaN \<in> set c)"
    by (simp add: retained_iff)
  then have c: "cols (drop_constant d) =
     filter (\<lambda>(n, c). (\<exists>x y. Fin x \<in> set c \<and> Fin y \<in> set c \<and> x \<noteq> y) \<or> NaN \<in> set c) (cols d)"
    by (simp add: drop_constant_def)
  have "columns (preprocess d) = map fst (cols (drop_constant d))"
    by (simp add: columns_def preprocess_def standardize_def Let_def comp_def case_prod_unfold)
  with c show ?thesis by (simp add: nrows_drop_constant)
qed

text \<open>
  Claim C5. A call returns no partial mapping. For contrasts with distinct names (the
  keys of a dictionary), either the call returns a mapping that pairs every supplied
  contrast, in order, with the VIF the loop body computes for it, or it raises the error
  that the loop body raised for one of the contrasts, and nothing is returned.
\<close>

theorem no_partial_result:
  assumes "distinct (map fst contrasts)"
  shows "(\<exists>m. est_contrast_vifs build invert desmat contrasts = Inr m \<and>
            list_all2 (ok_pair build invert (preprocess desmat)) contrasts m) \<or>
         (\<exists>err ne. est_contrast_vifs build invert desmat contrasts = Inl err \<and>
            ne \<in> set contrasts \<and>
            contrast_vif build invert (preprocess desmat) (snd ne) = Inl err)"
proof (cases "est_contrast_vifs build invert desmat contrasts")
  case (Inl err)
  then show ?thesis
    using vif_loop_Inl [of build invert "preprocess desmat" "[]" contrasts err]
    by (auto simp: est_contrast_vifs_def)
next
  case (Inr m)
  then show ?thesis
    using vif_loop_Inr [of contrasts "[]" build invert "preprocess desmat" m] assms
    by (simp add: est_contrast_vifs_def)
qed

text \<open>
  The theorem at a failing call: the second contrast names the constant column \<open>K\<close>,
  which preprocessing has dropped; the builder rejects it and the VIF already computed
  for the first contrast is not returned.
\<close>

theorem no_partial_result_witness:
  "distinct (map fst [(''c1'', ''A''), (''c2'', ''K'')]) \<and>
   est_contrast_vifs demo_builder linalg_inv d_ab [(''c1'', ''A''), (''c2'', ''K'')] = Inl ValueError \<and>
   (\<exists>err ne. est_contrast_vifs demo_builder linalg_inv d_ab [(''c1'', ''A''), (''c2'', ''K'')] = Inl err \<and>
      ne \<in> set [(''c1'', ''A''), (''c2'', ''K'')] \<and>
      contrast_vif demo_builder linalg_inv (preprocess d_ab) (snd ne) = Inl err)"
proof -
  have h: "distinct (map fst [(''c1'', ''A''), (''c2'', ''K'')])" by simp
  have e: "est_contrast_vifs demo_builder linalg_inv d_ab [(''c1'', ''A''), (''c2'', ''K'')] = Inl ValueError"
    by (simp add: est_contrast_vifs_def contrast_vif_d_ab_A contrast_vif_d_ab_unknown)
  from no_partial_result [OF h, of demo_builder linalg_inv d_ab] e h show ?thesis
    by simp
qed

text \<open>
  Claim C6. On success the returned mapping has exactly the supplied contrast names, in
  the order in which they were supplied (the names being distinct, as the keys of a
  dictionary are), whatever the design matrix and the order of its columns.
\<close>

theorem result_order:
  assumes "distinct (map fst contrasts)"
    and "est_contrast_vifs build invert desmat contrasts = Inr m"
  shows "map fst m = map fst contrasts"
  using vif_loop_Inr [of contrasts "[]" build invert "preprocess desmat" m] assms
  by (auto simp: est_contrast_vifs_def dest: list_all2_ok_pair_keys)

theorem result_order_witness:
  "distinct (map fst [(''C2'', ''B''), (''C1'', ''A'')]) \<and>
   est_contrast_vifs demo_builder linalg_inv d_ab [(''C2'', ''B''), (''C1'', ''A'')] =
     Inr [(''C2'', Fin (16/7)), (''C1'', Fin (16/7))] \<and>
   map fst [(''C2'', Fin (16/7)), (''C1'', Fin (16/7))] = map fst [(''C2'', ''B''), (''C1'', ''A'')]"
proof -
  have h: "distinct (map fst [(''C2'', ''B''), (''C1'', ''A'')])" by simp
  have e: "est_contrast_vifs demo_builder linalg_inv d_ab [(''C2'', ''B''), (''C1'', ''A'')] =
     Inr [(''C2'', Fin (16/7)), (''C1'', Fin (16/7))]"
    by (simp add: est_contrast_vifs_def contrast_vif_d_ab_A contrast_vif_d_ab_B)
  from result_order [OF h e] h e show ?thesis by simp
qed

text \<open>
  Claim C8. Inserting, at any position and under any name, a column whose entries are
  all the same number (none missing) changes nothing: the call on the larger frame
  returns what the call on the original frame returns, VIF for VIF (and raises what it
  raises).
\<close>

theorem constant_column_invariance:
  "est_contrast_vifs build invert
      (insert_column i name (replicate (nrows desmat) (Fin v)) desmat) contrasts
     = est_contrast_vifs build invert desmat contrasts"
  by (simp add: est_contrast_vifs_def preprocess_def drop_constant_insert_column)

text \<open>
  Claim C10. With an empty contrasts mapping the call returns the empty mapping and
  raises no error, for every design matrix, every builder and every inverter: neither
  of the two is called.
\<close>

theorem no_contrasts:
  "est_contrast_vifs build invert desmat [] = Inr []"
  by (simp add: est_contrast_vifs_def)

text \<open>
  Claim C9, as stated: computing the two inverses once before the loop gives the same
  result as the source, which computes them inside the loop, for every design matrix and
  every contrasts mapping. This fails for an empty mapping and a singular cross-product
  matrix: the source inverts nothing and returns the empty mapping, the other form
  raises \<open>LinAlgError\<close> before its loop.
\<close>

theorem once_differs_counterexample:
  "est_contrast_vifs demo_builder linalg_inv d_same [] = Inr [] \<and>
   est_contrast_vifs_once demo_builder linalg_inv d_same [] = Inl LinAlgError"
  by (simp add: est_contrast_vifs_def est_contrast_vifs_once_def gram_d_same linalg_inv_ones)

text \<open>
  Claim C9, amended. The form that inverts once returns a mapping exactly when the
  source returns that mapping and, in case there are no contrasts, the two inversions
  succeed. So for a non-empty contrasts mapping the two forms succeed on the same
  inputs with the same mapping, and whenever the once-form succeeds the source returns
  the same mapping. (The source itself is the form that inverts inside the loop.)
\<close>

theorem once_refines:
  "est_contrast_vifs_once build invert desmat contrasts = Inr m \<longleftrightarrow>
     est_contrast_vifs build invert desmat contrasts = Inr m \<and>
     (contrasts = [] \<longrightarrow> (\<exists>gi di. invert (gram (preprocess desmat)) = Inr gi \<and>
          invert (gram_diag (preprocess desmat)) = Inr di))"
proof (cases "\<exists>gi di. invert (gram (preprocess desmat)) = Inr gi \<and>
          invert (gram_diag (preprocess desmat)) = Inr di")
  case True
  then obtain gi di where "invert (gram (preprocess desmat)) = Inr gi"
      "invert (gram_diag (preprocess desmat)) = Inr di" by blast
  then show ?thesis
    by (simp add: est_contrast_vifs_once_def est_contrast_vifs_def vif_loop_once_eq)
next
  case False
  then have a: "est_contrast_vifs_once build invert desmat contrasts \<noteq> Inr m"
    by (auto simp: est_contrast_vifs_once_def Let_def split: sum.splits)
  have b: "contrasts \<noteq> [] \<Longrightarrow> est_contrast_vifs build invert desmat contrasts \<noteq> Inr m"
    using False vif_loop_Inr_inverts [of contrasts build invert "preprocess desmat" "[]" m]
    by (auto simp: est_contrast_vifs_def)
  show ?thesis using a b False by blast
qed

theorem once_refines_witness:
  "([] :: (string \<times> string) list) = [] \<and>
   est_contrast_vifs_once demo_builder linalg_inv d_ab [] = Inr [] \<and>
   est_contrast_vifs demo_builder linalg_inv d_ab [] = Inr [] \<and>
   (\<exists>gi di. linalg_inv (gram (preprocess d_ab)) = Inr gi \<and>
      linalg_inv (gram_diag (preprocess d_ab)) = Inr di)"
proof -
  have e: "est_contrast_vifs_once demo_builder linalg_inv d_ab [] = Inr []"
    by (simp add: est_contrast_vifs_once_def gram_d_ab gram_diag_d_ab linalg_inv_d_ab
        linalg_inv_identity2)
  from once_refines [of demo_builder linalg_inv d_ab "[]" "[]"] e show ?thesis
    by simp
qed

section \<open>Claims about the standardized matrix\<close>

text \<open>
  Claim C2, as stated: every retained column has mean zero and sum of squares 1 in the
  standardized matrix, so that the cross-product matrix with the identity multiplied in
  is the identity. This fails for a retained column with a missing entry: the entry
  stays missing, the sum of squares of the other entries is 3/4 here, and the only entry
  of the matrix is \<open>NaN\<close>.
\<close>

theorem unit_diagonal_counterexample:
  "wf_frame d_missing \<and>
   cols (preprocess d_missing) =
     [(''A'', [Fin (3/4), Fin (- 1/4), Fin (- 1/4), Fin (- 1/4), NaN])] \<and>
   (\<Sum>x\<leftarrow>notna [Fin (3/4), Fin (- 1/4), Fin (- 1/4), Fin (- 1/4), NaN]. x * x) = 3/4 \<and>
   gram_diag (preprocess d_missing) = [[NaN]] \<and>
   identity (length (cols (preprocess d_missing))) = [[Fin 1]]"
proof -
  have p: "cols (preprocess d_missing) =
     [(''A'', [Fin (3/4), Fin (- 1/4), Fin (- 1/4), Fin (- 1/4), NaN])]"
    by (simp add: d_missing_def frame_defs)
  have g: "gram_diag (preprocess d_missing) = [[NaN]]"
    by (simp add: gram_diag_def gram_def p multiply_def identity_def dot_def)
  have w: "wf_frame d_missing" by (simp add: wf_frame_def d_missing_def)
  show ?thesis using p g w by (simp add: identity_def)
qed

text \<open>
  Claim C2, amended. The unit sum of squares does not hold for every retained column:
  a retained column with a missing entry is still in the standardized matrix and still
  has a missing entry there; its sum of squares, which is its diagonal entry of the
  cross-product matrix, is \<open>NaN\<close> and not 1; and the cross-product matrix with the
  identity multiplied in is then not the identity matrix.
\<close>

theorem missing_entry_not_unit:
  assumes "(n, c) \<in> set (cols (drop_constant d))" and "NaN \<in> set c"
  shows "(n, scale_column (int (nrows d)) c) \<in> set (cols (preprocess d)) \<and>
         NaN \<in> set (scale_column (int (nrows d)) c) \<and>
         dot (scale_column (int (nrows d)) c) (scale_column (int (nrows d)) c) = NaN \<and>
         gram_diag (preprocess d) \<noteq> identity (length (cols (preprocess d)))"
proof -
  let ?z = "scale_column (int (nrows d)) c"
  let ?X = "preprocess d"
  have mem: "(n, ?z) \<in> set (cols ?X)"
    using assms(1) by (force simp: cols_preprocess)
  have nan: "NaN \<in> set ?z" using assms(2) by (rule scale_column_nan)
  then have dz: "dot ?z ?z = NaN" by (rule dot_self_nan)
  from mem obtain i where i: "i < length (cols ?X)" and ci: "cols ?X ! i = (n, ?z)"
    by (auto simp: in_set_conv_nth)
  have "gram_diag ?X ! i ! i = NaN"
    using gram_diag_diagonal [OF i] by (simp add: ci dz)
  moreover have "identity (length (cols ?X)) ! i ! i = Fin 1"
    using i by (rule identity_diagonal)
  ultimately have "gram_diag ?X \<noteq> identity (length (cols ?X))" by auto
  with mem nan dz show ?thesis by blast
qed

theorem missing_entry_not_unit_witness:
  "(''A'', [Fin 2, Fin 0, Fin 0, Fin 0, NaN]) \<in> set (cols (drop_constant d_missing)) \<and>
   NaN \<in> set [Fin 2, Fin 0, Fin 0, Fin 0, NaN] \<and>
   (''A'', scale_column (int (nrows d_missing)) [Fin 2, Fin 0, Fin 0, Fin 0, NaN])
      \<in> set (cols (preprocess d_missing)) \<and>
   NaN \<in> set (scale_column (int (nrows d_missing)) [Fin 2, Fin 0, Fin 0, Fin 0, NaN]) \<and>
   dot (scale_column (int (nrows d_missing)) [Fin 2, Fin 0, Fin 0, Fin 0, NaN])
       (scale_column (int (nrows d_missing)) [Fin 2, Fin 0, Fin 0, Fin 0, NaN]) = NaN \<and>
   gram_diag (preprocess d_missing) \<noteq> identity (length (cols (preprocess d_missing)))"
proof -
  have r: "(''A'', [Fin 2, Fin 0, Fin 0, Fin 0, NaN]) \<in> set (cols (drop_constant d_missing))"
    by (simp add: d_missing_def drop_constant_def retained_def isnull_any_def)
  have m: "NaN \<in> set [Fin 2, Fin 0, Fin 0, Fin 0, NaN]" by simp
  from missing_entry_not_unit [OF r m] r m show ?thesis by blast
qed

section \<open>Claims about degenerate input\<close>

text \<open>
  Claim C4, as stated: a retained column whose standardization divisor is zero makes the
  call fail with an explicit error, and no result holding a \<open>NaN\<close> is returned. The
  source has no such check. The column \<open>(1, 1, missing)\<close> is retained, its divisor is
  zero, and the call returns \<open>NaN\<close> as the VIF of the contrast \<open>A\<close> (and the empty mapping
  for no contrasts), without an error.
\<close>

theorem zero_divisor_counterexample:
  "wf_frame d_zero_var \<and>
   cols (drop_constant d_zero_var) = [(''A'', [Fin 1, Fin 1, NaN])] \<and>
   fmul (pow_half (Fin (of_int (int (nrows d_zero_var) - 1)))) (std [Fin 1, Fin 1, NaN]) = Fin 0 \<and>
   cols (preprocess d_zero_var) = [(''A'', [NaN, NaN, NaN])] \<and>
   est_contrast_vifs demo_builder linalg_inv d_zero_var [(''c'', ''A'')] = Inr [(''c'', NaN)] \<and>
   est_contrast_vifs demo_builder linalg_inv d_zero_var [] = Inr []"
proof -
  have w: "wf_frame d_zero_var" by (simp add: wf_frame_def d_zero_var_def)
  have r: "cols (drop_constant d_zero_var) = [(''A'', [Fin 1, Fin 1, NaN])]"
    by (simp add: d_zero_var_def drop_constant_def retained_def isnull_any_def)
  have z: "fmul (pow_half (Fin (of_int (int (nrows d_zero_var) - 1)))) (std [Fin 1, Fin 1, NaN]) = Fin 0"
    by (simp add: d_zero_var_def std_def var_def)
  have p: "preprocess d_zero_var = \<lparr>nrows = 3, cols = [(''A'', [NaN, NaN, NaN])]\<rparr>"
    by (simp add: d_zero_var_def frame_defs)
  have v: "contrast_vif demo_builder linalg_inv (preprocess d_zero_var) ''A'' = Inr NaN"
    by (simp add: p contrast_vif_def matrix_defs demo_builder_def inverse_defs)
  have e: "est_contrast_vifs demo_builder linalg_inv d_zero_var [(''c'', ''A'')] = Inr [(''c'', NaN)]"
    by (simp add: est_contrast_vifs_def v)
  show ?thesis using w r z p e by (simp add: est_contrast_vifs_def)
qed

text \<open>
  Claim C4, amended. For a design matrix with a retained column whose standardization
  divisor is zero, the call makes no check of the divisor and raises no error on that
  account: the column stays in the standardized matrix, with no contrasts the call
  returns the empty mapping, and if the call fails, the error is one that the loop body
  (builder, inverter or shape check) raised for some contrast.
\<close>

theorem zero_divisor_silent:
  assumes "(n, c) \<in> set (cols (drop_constant d))"
    and "fmul (pow_half (Fin (of_int (int (nrows d) - 1)))) (std c) = Fin 0"
  shows "n \<in> set (columns (preprocess d)) \<and>
         est_contrast_vifs build invert d [] = Inr [] \<and>
         (\<forall>err. est_contrast_vifs build invert d contrasts = Inl err \<longrightarrow>
            (\<exists>ne. ne \<in> set contrasts \<and>
               contrast_vif build invert (preprocess d) (snd ne) = Inl err))"
proof -
  have "(n, scale_column (int (nrows d)) c) \<in> set (cols (preprocess d))"
    using assms(1) by (force simp: cols_preprocess)
  then have mem: "n \<in> set (columns (preprocess d))"
    by (force simp: columns_def)
  have e: "est_contrast_vifs build invert d [] = Inr []"
    by (simp add: est_contrast_vifs_def)
  show ?thesis using mem e est_failure_source by blast
qed

theorem zero_divisor_silent_witness:
  "(''A'', [Fin 1, Fin 1, NaN]) \<in> set (cols (drop_constant d_zero_var)) \<and>
   fmul (pow_half (Fin (of_int (int (nrows d_zero_var) - 1)))) (std [Fin 1, Fin 1, NaN]) = Fin 0 \<and>
   ''A'' \<in> set (columns (preprocess d_zero_var)) \<and>
   est_contrast_vifs demo_builder linalg_inv d_zero_var [] = Inr [] \<and>
   est_contrast_vifs demo_builder linalg_inv d_zero_var [(''c'', ''K'')] = Inl ValueError \<and>
   (\<exists>ne. ne \<in> set [(''c'', ''K'')] \<and>
      contrast_vif demo_builder linalg_inv (preprocess d_zero_var) (snd ne) = Inl ValueError)"
proof -
  have r: "(''A'', [Fin 1, Fin 1, NaN]) \<in> set (cols (drop_constant d_zero_var))"
    by (simp add: d_zero_var_def drop_constant_def retained_def isnull_any_def)
  have z: "fmul (pow_half (Fin (of_int (int (nrows d_zero_var) - 1)))) (std [Fin 1, Fin 1, NaN]) = Fin 0"
    by (simp add: d_zero_var_def std_def var_def)
  have p: "preprocess d_zero_var = \<lparr>nrows = 3, cols = [(''A'', [NaN, NaN, NaN])]\<rparr>"
    by (simp add: d_zero_var_def frame_defs)
  have e: "est_contrast_vifs demo_builder linalg_inv d_zero_var [(''c'', ''K'')] = Inl ValueError"
    by (simp add: est_contrast_vifs_def contrast_vif_def p columns_def demo_builder_def)
  from zero_divisor_silent [where build = demo_builder and invert = linalg_inv
      and contrasts = "[(''c'', ''K'')]", OF r z] e r z
  show ?thesis by blast
qed

text \<open>
  Claim C7, as stated: when preprocessing drops every column the call fails. The source
  has no such check: for the frame of one constant column and no contrasts it returns
  the empty mapping.
\<close>

theorem no_columns_counterexample:
  "wf_frame d_const \<and> cols (preprocess d_const) = [] \<and>
   est_contrast_vifs demo_builder linalg_inv d_const [] = Inr []"
  by (simp add: wf_frame_def d_const_def est_contrast_vifs_def frame_defs)

text \<open>
  Claim C7, amended. When preprocessing drops every column the call makes no check of
  its own and goes on with the empty standardized matrix: no columns, empty
  cross-product matrices. With no contrasts it returns the empty mapping. With
  contrasts, the first expression is handed to the builder with the empty list of
  column names, and the call fails with the builder's error if the builder rejects it;
  any failure is one that the loop body raised for some contrast.
\<close>

theorem no_columns_proceeds:
  assumes "cols (drop_constant desmat) = []"
  shows "cols (preprocess desmat) = [] \<and> columns (preprocess desmat) = [] \<and>
         gram (preprocess desmat) = [] \<and> gram_diag (preprocess desmat) = [] \<and>
         est_contrast_vifs build invert desmat [] = Inr [] \<and>
         (\<forall>err. build expr [] = Inl err \<longrightarrow>
            est_contrast_vifs build invert desmat ((name, expr) # rest) = Inl err) \<and>
         (\<forall>err. est_contrast_vifs build invert desmat contrasts = Inl err \<longrightarrow>
            (\<exists>ne. ne \<in> set contrasts \<and>
               contrast_vif build invert (preprocess desmat) (snd ne) = Inl err))"
proof -
  have c: "cols (preprocess desmat) = []" by (simp add: cols_preprocess assms)
  then have n: "columns (preprocess desmat) = []" by (simp add: columns_def)
  have g: "gram (preprocess desmat) = []" by (simp add: gram_def c)
  have gd: "gram_diag (preprocess desmat) = []" by (simp add: gram_diag_def g c multiply_def)
  have e: "est_contrast_vifs build invert desmat [] = Inr []"
    by (simp add: est_contrast_vifs_def)
  have b: "\<forall>err. build expr [] = Inl err \<longrightarrow>
            est_contrast_vifs build invert desmat ((name, expr) # rest) = Inl err"
    by (simp add: est_contrast_vifs_def contrast_vif_def n)
  show ?thesis using c n g gd e b est_failure_source by blast
qed

theorem no_columns_proceeds_witness:
  "cols (drop_constant d_const) = [] \<and> cols (preprocess d_const) = [] \<and>
   gram (preprocess d_const) = [] \<and>
   est_contrast_vifs demo_builder linalg_inv d_const [] = Inr [] \<and>
   demo_builder ''K'' [] = Inl ValueError \<and>
   est_contrast_vifs demo_builder linalg_inv d_const [(''c'', ''K'')] = Inl ValueError"
proof -
  have h: "cols (drop_constant d_const) = []"
    by (simp add: d_const_def drop_constant_def retained_def nunique_def isnull_any_def)
  have b: "demo_builder ''K'' [] = Inl ValueError" by (simp add: demo_builder_def)
  from no_columns_proceeds [where build = demo_builder and invert = linalg_inv
      and expr = "''K''" and name = "''c''" and rest = "[]" and contrasts = "[]", OF h] h b
  show ?thesis by blast
qed

end
